theory Spec2Isabelle
  imports Main "HOL-Library.Sublist"
begin

section \<open>Field filling: the staged algorithm of \<open>records/fillers/filler.py\<close>\<close>

text \<open>
  The development embeds \<open>AnnotatedFiller\<close> (its \<open>fill\<close>, \<open>bind\<close>, \<open>apply\<close>,
  \<open>get_coercer\<close> and \<open>get_validator\<close>) and proves the properties its specification states.

  Python values are an arbitrary type \<open>'v\<close>; the identity of a Python object that is only
  passed around (a token, the origin type) is an arbitrary type \<open>'k\<close>.
\<close>

subsection \<open>Enumerations\<close>

text \<open>\<open>class TypeCheckStyle(Enum)\<close>, members in declaration order.\<close>

datatype TypeCheckStyle = default | hollow | check | check_strict

text \<open>\<open>class FillingIntent(IntEnum)\<close>, members in declaration order, with their values.\<close>

datatype FillingIntent = attempt_no_coerce | attempt_coerce | attempt_hollow | attempt_validation

fun intent_value :: "FillingIntent \<Rightarrow> int" where
  "intent_value attempt_no_coerce = 0"
| "intent_value attempt_coerce = 1"
| "intent_value attempt_hollow = 2"
| "intent_value attempt_validation = - 1"

subsection \<open>Exceptions and callables\<close>

text \<open>
  The arguments an exception instance is built with: none (\<open>raise NotImplementedError\<close>),
  a string (\<open>TypeError(f'...')\<close>), or an object (\<open>TypeError(token)\<close>).
\<close>

datatype 'k exn_args = NoArgs | Text string | Object 'k

text \<open>
  A raised exception. \<open>TypeError a\<close> stands for an instance of \<open>TypeError\<close> or of a
  subclass of it, which is what the clause \<open>except TypeError\<close> catches; \<open>OtherError c a\<close>
  \<open>StopIteration a\<close> likewise stands for an instance of \<open>StopIteration\<close> or of a subclass
  of it, which is what a generator does not let out of its body; \<open>OtherError c a\<close> stands for
  an instance of any class \<open>c\<close> that is none of the named ones and is a subclass neither of
  \<open>TypeError\<close> nor of \<open>StopIteration\<close>.
\<close>

datatype 'k exn =
    NotImplementedError "'k exn_args"
  | TypeError "'k exn_args"
  | ValueError "'k exn_args"
  | StopIteration "'k exn_args"
  | RuntimeError "'k exn_args"
  | OtherError string "'k exn_args"

text \<open>
  A coercer or validator is described by what calling it with one argument does: it raises
  (\<open>Inl\<close>) or returns a value (\<open>Inr\<close>). A callable that cannot take one argument is one
  whose call raises a \<open>TypeError\<close>. A type check returns a truth value, or raises.
\<close>

type_synonym ('v, 'k) callable = "'v \<Rightarrow> 'k exn + 'v"

type_synonym ('v, 'k) type_checker = "'v \<Rightarrow> 'k exn + bool"

subsection \<open>Configuration tokens\<close>

text \<open>
  An element of \<open>self.args\<close>, classified by the first branch of the \<open>isinstance\<close> chain
  of \<open>apply\<close> that it satisfies. A coercion or validation token carries its identity and
  what \<open>callable(token)\<close> sees: \<open>Some f\<close> when the token is callable, \<open>f\<close> being its
  behaviour when called with one argument, and \<open>None\<close> when it is not callable.
  \<open>OtherToken\<close> is an object that is an instance of none of the three classes.
\<close>

datatype ('v, 'k) token =
    StyleToken TypeCheckStyle
  | CoercionToken 'k "('v, 'k) callable option"
  | ValidationToken 'k "('v, 'k) callable option"
  | OtherToken 'k

subsection \<open>The filler\<close>

text \<open>
  The fields \<open>__init__\<close> sets, and the two abstract methods a concrete subclass supplies.
\<close>

record ('v, 'k) AnnotatedFiller =
  type_checking_style :: TypeCheckStyle
  origin :: 'k
  args :: "('v, 'k) token list"
  coercers :: "('v, 'k) callable list"
  validators :: "('v, 'k) callable list"
  type_check_strict :: "('v, 'k) type_checker"
  type_check :: "('v, 'k) type_checker"

text \<open>\<open>__init__(self, origin, args)\<close>, given the subclass's two methods.\<close>

definition init ::
  "('v, 'k) type_checker \<Rightarrow> ('v, 'k) type_checker \<Rightarrow> 'k \<Rightarrow> ('v, 'k) token list
     \<Rightarrow> ('v, 'k) AnnotatedFiller"
where
  "init tcs tc orig as =
     \<lparr> type_checking_style = TypeCheckStyle.default,
       origin = orig,
       args = as,
       coercers = [],
       validators = [],
       type_check_strict = tcs,
       type_check = tc \<rparr>"

subsection \<open>Staged computations\<close>

text \<open>
  \<open>fill\<close> is a generator. A run of it that the driver resumes until it finishes is
  described by what happened, in order, and by how it ended: the events are the intents
  yielded and the calls made to the type checks, the coercers (by index in
  \<open>self.coercers\<close>) and the validators (by index in \<open>self.validators\<close>); the end is the
  value returned (\<open>Inr\<close>) or the exception raised (\<open>Inl\<close>). A driver that abandons the
  generator after a yield has seen the events up to that yield.
\<close>

datatype event =
    Yield FillingIntent
  | CallTypeCheckStrict
  | CallTypeCheck
  | CallCoercer nat
  | CallValidator nat

type_synonym ('a, 'k) staged = "event list \<times> ('k exn + 'a)"

definition returns :: "'a \<Rightarrow> ('a, 'k) staged" where
  "returns v = ([], Inr v)"

definition raise :: "'k exn \<Rightarrow> ('a, 'k) staged" where
  "raise e = ([], Inl e)"

definition yield :: "FillingIntent \<Rightarrow> (unit, 'k) staged" where
  "yield i = ([Yield i], Inr ())"

text \<open>A call: the event is recorded, then the call's outcome is the outcome.\<close>

definition call :: "event \<Rightarrow> 'k exn + 'a \<Rightarrow> ('a, 'k) staged" where
  "call ev r = ([ev], r)"

text \<open>Sequencing: an exception ends the run, a value goes on to the rest.\<close>

definition and_then :: "('a, 'k) staged \<Rightarrow> ('a \<Rightarrow> ('b, 'k) staged) \<Rightarrow> ('b, 'k) staged" where
  "and_then m k =
     (case m of
        (evs, Inl e) \<Rightarrow> (evs, Inl e)
      | (evs, Inr a) \<Rightarrow> (case k a of (evs', r) \<Rightarrow> (evs @ evs', r)))"

text \<open>The intents among the events, in order: what the driver of the generator receives.\<close>

fun intents :: "event list \<Rightarrow> FillingIntent list" where
  "intents [] = []"
| "intents (Yield i # evs) = i # intents evs"
| "intents (_ # evs) = intents evs"

subsection \<open>\<open>AnnotatedFiller.fill\<close>\<close>

text \<open>
  Lines 95 to 102, the scan of the coercers:
  \<^verbatim>\<open>
  for i, coercer in enumerate(self.coercers):
      try:
          arg = coercer(arg)
      except TypeError:
          if i == len(self.coercers) - 1:
              raise
      else:
          break
  \<close>
  \<open>coerce_loop n i cs arg\<close> is the loop at index \<open>i\<close> with the coercers \<open>cs\<close> still to
  come, \<open>n\<close> being \<open>len(self.coercers)\<close>. A coercer that raises leaves \<open>arg\<close> as it was.
  An exception that is not a \<open>TypeError\<close> is not caught. The loop is only entered with
  a non-empty list, so \<open>n - 1\<close> is never computed at \<open>n = 0\<close>; the first equation is the
  loop running out, which leaves \<open>arg\<close> unchanged.
\<close>

fun coerce_loop ::
  "nat \<Rightarrow> nat \<Rightarrow> ('v, 'k) callable list \<Rightarrow> 'v \<Rightarrow> ('v, 'k) staged"
where
  "coerce_loop n i [] arg = returns arg"
| "coerce_loop n i (coercer # cs) arg =
     (case coercer arg of
        Inr v \<Rightarrow> call (CallCoercer i) (Inr v)
      | Inl (TypeError a) \<Rightarrow>
          if i = n - 1 then call (CallCoercer i) (Inl (TypeError a))
          else and_then (call (CallCoercer i) (Inr ())) (\<lambda>_. coerce_loop n (i + 1) cs arg)
      | Inl e \<Rightarrow> call (CallCoercer i) (Inl e))"

text \<open>
  Lines 106 and 107, the validators:
  \<^verbatim>\<open>
  for validator in self.validators:
      arg = validator(arg)
  \<close>
  \<open>validate_loop i vs arg\<close> is the loop with the validators \<open>vs\<close> still to come, the next
  one having index \<open>i\<close> in \<open>self.validators\<close>.
\<close>

fun validate_loop :: "nat \<Rightarrow> ('v, 'k) callable list \<Rightarrow> 'v \<Rightarrow> ('v, 'k) staged" where
  "validate_loop i [] arg = returns arg"
| "validate_loop i (validator # vs) arg =
     and_then (call (CallValidator i) (validator arg)) (\<lambda>v. validate_loop (i + 1) vs v)"

text \<open>
  Lines 78 to 102: everything \<open>fill\<close> does before the comment
  \<open># type checking done, perform validation\<close>. It ends with the value of \<open>arg\<close> that
  validation receives, or with an exception. \<open>type_repr\<close> is Python's rendering of
  \<open>type(arg)\<close> in the f-string of line 94.
\<close>

definition type_stage ::
  "('v \<Rightarrow> string) \<Rightarrow> ('v, 'k) AnnotatedFiller \<Rightarrow> 'v \<Rightarrow> ('v, 'k) staged"
where
  "type_stage type_repr self arg =
     (if type_checking_style self = TypeCheckStyle.default then raise (NotImplementedError NoArgs)
      else if type_checking_style self = hollow then
        and_then (yield attempt_hollow) (\<lambda>_. returns arg)
      else
        and_then (yield attempt_no_coerce) (\<lambda>_.
        and_then
          (if type_checking_style self = check_strict
           then call CallTypeCheckStrict (type_check_strict self arg)
           else call CallTypeCheck (type_check self arg))
          (\<lambda>is_type.
             if \<not> is_type then
               and_then (yield attempt_coerce) (\<lambda>_.
                 if coercers self = [] then
                   raise (TypeError (Text (''failed type checking for value of type '' @ type_repr arg)))
                 else coerce_loop (length (coercers self)) 0 (coercers self) arg)
             else returns arg)))"

text \<open>Lines 105 to 109: the validation intent, the validators, and \<open>return arg\<close>.\<close>

definition validation_stage :: "('v, 'k) AnnotatedFiller \<Rightarrow> 'v \<Rightarrow> ('v, 'k) staged" where
  "validation_stage self arg =
     and_then (yield attempt_validation) (\<lambda>_. validate_loop 0 (validators self) arg)"

text \<open>
  The body of \<open>fill\<close> contains \<open>yield\<close>, so \<open>fill\<close> is a generator function, and the
  module needs \<open>typing.Protocol\<close>, so the interpreter is one in which PEP 479 is in force:
  a \<open>StopIteration\<close> that would leave the body of a generator, here one raised by a type
  check, a coercer or a validator, is replaced by
  \<open>RuntimeError('generator raised StopIteration')\<close>. Every other exception leaves the
  generator as it is, and so does the value returned.
\<close>

fun generator_raises :: "'k exn \<Rightarrow> 'k exn" where
  "generator_raises (StopIteration a) = RuntimeError (Text ''generator raised StopIteration'')"
| "generator_raises e = e"

definition generator :: "('a, 'k) staged \<Rightarrow> ('a, 'k) staged" where
  "generator body =
     (case body of
        (evs, Inl e) \<Rightarrow> (evs, Inl (generator_raises e))
      | (evs, Inr v) \<Rightarrow> (evs, Inr v))"

text \<open>\<open>fill(self, arg)\<close>, driven to its end: the generator whose body is lines 78 to 109.\<close>

definition fill ::
  "('v \<Rightarrow> string) \<Rightarrow> ('v, 'k) AnnotatedFiller \<Rightarrow> 'v \<Rightarrow> ('v, 'k) staged"
where
  "fill type_repr self arg =
     generator (and_then (type_stage type_repr self arg) (\<lambda>v. validation_stage self v))"

subsection \<open>\<open>AnnotatedFiller.bind\<close> and \<open>apply\<close>\<close>

text \<open>
  \<open>get_coercer\<close> and \<open>get_validator\<close>: the token itself when it is callable, else
  \<open>raise TypeError(token)\<close>.
\<close>

fun get_coercer :: "'k \<Rightarrow> ('v, 'k) callable option \<Rightarrow> 'k exn + ('v, 'k) callable" where
  "get_coercer k (Some f) = Inr f"
| "get_coercer k None = Inl (TypeError (Object k))"

fun get_validator :: "'k \<Rightarrow> ('v, 'k) callable option \<Rightarrow> 'k exn + ('v, 'k) callable" where
  "get_validator k (Some f) = Inr f"
| "get_validator k None = Inl (TypeError (Object k))"

text \<open>
  The methods that mutate the filler return the exception raised, if any, and the filler
  as the call leaves it. In \<open>self.coercers.append(self.get_coercer(token))\<close> the argument
  is evaluated first, so a token that is refused leaves the list as it was. A token that
  is an instance of none of the three classes is passed over in silence.
\<close>

fun apply_token ::
  "('v, 'k) AnnotatedFiller \<Rightarrow> ('v, 'k) token \<Rightarrow> 'k exn option \<times> ('v, 'k) AnnotatedFiller"
where
  "apply_token self (StyleToken t) = (None, self\<lparr>type_checking_style := t\<rparr>)"
| "apply_token self (CoercionToken k c) =
     (case get_coercer k c of
        Inl e \<Rightarrow> (Some e, self)
      | Inr f \<Rightarrow> (None, self\<lparr>coercers := coercers self @ [f]\<rparr>))"
| "apply_token self (ValidationToken k c) =
     (case get_validator k c of
        Inl e \<Rightarrow> (Some e, self)
      | Inr f \<Rightarrow> (None, self\<lparr>validators := validators self @ [f]\<rparr>))"
| "apply_token self (OtherToken k) = (None, self)"

text \<open>Lines 112 and 113: \<open>for arg in self.args: self.apply(arg)\<close>.\<close>

fun apply_all ::
  "('v, 'k) token list \<Rightarrow> ('v, 'k) AnnotatedFiller \<Rightarrow> 'k exn option \<times> ('v, 'k) AnnotatedFiller"
where
  "apply_all [] self = (None, self)"
| "apply_all (tok # toks) self =
     (case apply_token self tok of
        (Some e, self') \<Rightarrow> (Some e, self')
      | (None, self') \<Rightarrow> apply_all toks self')"

text \<open>\<open>bind(self, owner_cls)\<close>; \<open>owner_cls\<close> is not used by the method.\<close>

definition bind :: "('v, 'k) AnnotatedFiller \<Rightarrow> 'k exn option \<times> ('v, 'k) AnnotatedFiller" where
  "bind self =
     (case apply_all (args self) self of
        (Some e, self') \<Rightarrow> (Some e, self')
      | (None, self') \<Rightarrow>
          if type_checking_style self' = TypeCheckStyle.default
          then (Some (NotImplementedError NoArgs), self')
          else if type_checking_style self' = hollow \<and> coercers self' \<noteq> []
          then (Some (ValueError (Text ''cannot have hollow type checking with coercers'')), self')
          else (None, self'))"

section \<open>Concrete fillers\<close>

text \<open>
  A small universe of Python values and a few user-written coercers and validators, for
  running the definitions above on concrete inputs. The declared type is \<open>int\<close>;
  \<open>bool\<close> is a subclass of \<open>int\<close> in Python.
\<close>

datatype pyval = IntV int | BoolV bool | StrV string | NoneV

text \<open>\<open>str(type(v))\<close>.\<close>

fun pyval_type_repr :: "pyval \<Rightarrow> string" where
  "pyval_type_repr (IntV _) = ''<class 'int'>''"
| "pyval_type_repr (BoolV _) = ''<class 'bool'>''"
| "pyval_type_repr (StrV _) = ''<class 'str'>''"
| "pyval_type_repr NoneV = ''<class 'NoneType'>''"

text \<open>\<open>isinstance(v, int)\<close> and \<open>type(v) is int\<close>.\<close>

fun is_int :: "(pyval, nat) type_checker" where
  "is_int (IntV _) = Inr True"
| "is_int (BoolV _) = Inr True"
| "is_int _ = Inr False"

fun is_int_strict :: "(pyval, nat) type_checker" where
  "is_int_strict (IntV _) = Inr True"
| "is_int_strict _ = Inr False"

text \<open>Coercers: each converts one kind of value and raises on the others.\<close>

fun from_none :: "(pyval, nat) callable" where
  "from_none NoneV = Inr (IntV 0)"
| "from_none _ = Inl (TypeError (Text ''expected None''))"

fun from_str :: "(pyval, nat) callable" where
  "from_str (StrV s) = Inr (IntV (int (length s)))"
| "from_str _ = Inl (TypeError (Text ''expected str''))"


text \<open>A coercer that looks its argument up in a table it does not have.\<close>

fun from_table :: "(pyval, nat) callable" where
  "from_table v = Inl (OtherError ''KeyError'' NoArgs)"

text \<open>A coercer that takes the next item of an iterator that has none left.\<close>

fun from_iterator :: "(pyval, nat) callable" where
  "from_iterator v = Inl (StopIteration NoArgs)"

text \<open>
  A callable declared with two parameters, \<open>def needs_two(value, base)\<close>: whatever the one
  argument it is called with, the call raises the \<open>TypeError\<close> of a missing argument.
\<close>

fun needs_two :: "(pyval, nat) callable" where
  "needs_two v = Inl (TypeError (Text ''needs_two() missing 1 required positional argument''))"

text \<open>Validators: one transforms, one rejects, one runs out of items.\<close>

fun successor :: "(pyval, nat) callable" where
  "successor (IntV n) = Inr (IntV (n + 1))"
| "successor v = Inr v"

fun non_negative :: "(pyval, nat) callable" where
  "non_negative (IntV n) = (if 0 \<le> n then Inr (IntV n) else Inl (ValueError (Text ''negative'')))"
| "non_negative v = Inr v"


text \<open>A filler for \<open>int\<close> as \<open>bind\<close> would leave it, with the given configuration.\<close>

definition int_filler ::
  "TypeCheckStyle \<Rightarrow> (pyval, nat) callable list \<Rightarrow> (pyval, nat) callable list
     \<Rightarrow> (pyval, nat) AnnotatedFiller"
where
  "int_filler style cs vs =
     \<lparr> type_checking_style = style,
       origin = 0,
       args = [],
       coercers = cs,
       validators = vs,
       type_check_strict = is_int_strict,
       type_check = is_int \<rparr>"

text \<open>A filler for \<open>int\<close> as \<open>__init__\<close> leaves it, with the given tokens.\<close>

definition new_int_filler :: "(pyval, nat) token list \<Rightarrow> (pyval, nat) AnnotatedFiller" where
  "new_int_filler toks = init is_int_strict is_int 0 toks"

section \<open>Properties\<close>

subsection \<open>Running the stages\<close>

lemma and_then_Inl [simp]: "and_then (evs, Inl e) k = (evs, Inl e)"
  by (simp add: and_then_def)

lemma and_then_Inr [simp]: "and_then (evs, Inr a) k = (evs @ fst (k a), snd (k a))"
  by (simp add: and_then_def split: prod.splits)

lemma generator_Inl [simp]: "generator (evs, Inl e) = (evs, Inl (generator_raises e))"
  by (simp add: generator_def)

lemma generator_Inr [simp]: "generator (evs, Inr v) = (evs, Inr v)"
  by (simp add: generator_def)

lemma fst_generator [simp]: "fst (generator body) = fst body"
  by (cases body) (simp add: generator_def split: sum.splits)

lemma isl_generator [simp]: "isl (snd (generator body)) = isl (snd body)"
  by (cases body) (simp add: generator_def split: sum.splits)

lemma intents_append [simp]: "intents (xs @ ys) = intents xs @ intents ys"
  by (induction xs rule: intents.induct) simp_all

lemma intents_coercer_calls [simp]: "intents (map CallCoercer js) = []"
  by (induction js) simp_all

lemma intents_validator_calls [simp]: "intents (map CallValidator js) = []"
  by (induction js) simp_all

lemmas run_simps = fill_def type_stage_def validation_stage_def int_filler_def new_int_filler_def
  init_def yield_def call_def returns_def raise_def bind_def

text \<open>The validators only add calls to validators, at most one for each.\<close>

lemma validate_loop_events:
  "\<exists>m\<le>length vs. fst (validate_loop i vs v) = map CallValidator [i..<i + m]"
proof (induction vs arbitrary: i v)
  case Nil
  then show ?case by (simp add: returns_def)
next
  case (Cons f vs)
  show ?case
  proof (cases "f v")
    case (Inl e)
    then have "fst (validate_loop i (f # vs) v) = map CallValidator [i..<i + 1]"
      by (simp add: call_def)
    then show ?thesis by (intro exI[of _ 1]) simp
  next
    case (Inr u)
    from Cons.IH[of "i + 1" u] obtain m where m: "m \<le> length vs"
      "fst (validate_loop (i + 1) vs u) = map CallValidator [i + 1..<i + 1 + m]" by blast
    have "fst (validate_loop i (f # vs) v) = map CallValidator [i..<i + Suc m]"
      using Inr m(2) by (simp add: call_def upt_rec[of i])
    then show ?thesis using m(1) by (intro exI[of _ "Suc m"]) simp
  qed
qed

lemma validation_stage_events:
  "\<exists>m\<le>length (validators self).
     fst (validation_stage self v) = Yield attempt_validation # map CallValidator [0..<m]"
  using validate_loop_events[of "validators self" 0 v]
  by (auto simp: validation_stage_def yield_def)

lemma validation_stage_no_validators:
  "validators self = [] \<Longrightarrow> validation_stage self v = ([Yield attempt_validation], Inr v)"
  by (simp add: validation_stage_def yield_def returns_def)


lemma intents_validation_stage [simp]:
  "intents (fst (validation_stage self v)) = [attempt_validation]"
proof -
  obtain m where "fst (validation_stage self v) = Yield attempt_validation # map CallValidator [0..<m]"
    using validation_stage_events[of self v] by auto
  then show ?thesis by simp
qed

text \<open>
  The scan of the coercers. It stops at the first coercer whose outcome is not a
  \<open>TypeError\<close>, with that outcome; when every coercer raises a \<open>TypeError\<close>, it ends
  with the last one's. Either way the coercers called are an initial segment of the list.
\<close>

lemma coerce_loop_stops:
  assumes "n = i + length cs" and "k < length cs"
    and "\<forall>j<k. \<exists>a. (cs ! j) arg = Inl (TypeError a)"
    and "\<forall>a. (cs ! k) arg \<noteq> Inl (TypeError a)"
  shows "coerce_loop n i cs arg = (map CallCoercer [i..<i + k + 1], (cs ! k) arg)"
  using assms
proof (induction cs arbitrary: i k)
  case Nil
  then show ?case by simp
next
  case (Cons c cs)
  show ?case
  proof (cases k)
    case 0
    with Cons.prems(4) have nt: "\<forall>a. c arg \<noteq> Inl (TypeError a)" by simp
    show ?thesis
    proof (cases "c arg")
      case (Inr v)
      with 0 show ?thesis by (simp add: call_def)
    next
      case (Inl e)
      with nt 0 show ?thesis by (cases e) (simp_all add: call_def)
    qed
  next
    case (Suc k')
    from Cons.prems(3) Suc obtain a where a: "c arg = Inl (TypeError a)" by fastforce
    from Cons.prems(1,2) Suc have notlast: "i \<noteq> n - 1" by (cases cs) simp_all
    have "coerce_loop n (i + 1) cs arg = (map CallCoercer [i + 1..<i + 1 + k' + 1], (cs ! k') arg)"
    proof (rule Cons.IH)
      show "n = i + 1 + length cs" using Cons.prems(1) by simp
      show "k' < length cs" using Cons.prems(2) Suc by simp
      show "\<forall>j<k'. \<exists>a. (cs ! j) arg = Inl (TypeError a)"
        using Cons.prems(3) Suc by fastforce
      show "\<forall>a. (cs ! k') arg \<noteq> Inl (TypeError a)"
        using Cons.prems(4) Suc by simp
    qed
    then show ?thesis
      using a notlast Suc by (simp add: call_def upt_rec[of i])
  qed
qed


lemma coerce_loop_events:
  "\<exists>m\<le>length cs. fst (coerce_loop n i cs arg) = map CallCoercer [i..<i + m]"
proof (induction cs arbitrary: i)
  case Nil
  then show ?case by (simp add: returns_def)
next
  case (Cons c cs)
  have one: "[CallCoercer i] = map CallCoercer [i..<i + 1]" by simp
  from Cons.IH[of "i + 1"] obtain m where m: "m \<le> length cs"
    "fst (coerce_loop n (i + 1) cs arg) = map CallCoercer [i + 1..<i + 1 + m]" by blast
  have more: "CallCoercer i # map CallCoercer [i + 1..<i + 1 + m] = map CallCoercer [i..<i + Suc m]"
    by (simp add: upt_rec[of i])
  have "fst (coerce_loop n i (c # cs) arg) = map CallCoercer [i..<i + 1]
      \<or> fst (coerce_loop n i (c # cs) arg) = map CallCoercer [i..<i + Suc m]"
  proof (cases "c arg")
    case (Inr v)
    then show ?thesis by (simp add: call_def)
  next
    case (Inl e)
    then show ?thesis using m(2) more
      by (cases e) (simp_all add: call_def)
  qed
  then show ?case
  proof
    assume "fst (coerce_loop n i (c # cs) arg) = map CallCoercer [i..<i + 1]"
    then show ?thesis by (intro exI[of _ 1]) simp
  next
    assume "fst (coerce_loop n i (c # cs) arg) = map CallCoercer [i..<i + Suc m]"
    then show ?thesis using m(1) by (intro exI[of _ "Suc m"]) simp
  qed
qed

lemma intents_coerce_loop [simp]: "intents (fst (coerce_loop n i cs arg)) = []"
proof -
  obtain m where "fst (coerce_loop n i cs arg) = map CallCoercer [i..<i + m]"
    using coerce_loop_events[of cs n i arg] by blast
  then show ?thesis by simp
qed

text \<open>The type stage of a hollow filler, and of a checking filler by the outcome of the check.\<close>

lemma type_stage_hollow:
  "type_checking_style self = hollow \<Longrightarrow>
     type_stage type_repr self arg = ([Yield attempt_hollow], Inr arg)"
  by (simp add: type_stage_def yield_def returns_def)

lemma type_stage_checked:
  assumes "(type_checking_style self = check \<and> type_check self arg = r \<and> ev = CallTypeCheck)
         \<or> (type_checking_style self = check_strict \<and> type_check_strict self arg = r
              \<and> ev = CallTypeCheckStrict)"
  shows "type_stage type_repr self arg =
    (case r of
       Inl e \<Rightarrow> ([Yield attempt_no_coerce, ev], Inl e)
     | Inr True \<Rightarrow> ([Yield attempt_no_coerce, ev], Inr arg)
     | Inr False \<Rightarrow>
         if coercers self = [] then
           ([Yield attempt_no_coerce, ev, Yield attempt_coerce],
            Inl (TypeError (Text (''failed type checking for value of type '' @ type_repr arg))))
         else
           ([Yield attempt_no_coerce, ev, Yield attempt_coerce]
              @ fst (coerce_loop (length (coercers self)) 0 (coercers self) arg),
            snd (coerce_loop (length (coercers self)) 0 (coercers self) arg)))"
  using assms
  by (auto simp: type_stage_def yield_def call_def returns_def raise_def split: sum.splits bool.splits)

text \<open>The intents of the type stage, and what \<open>fill\<close> adds to them.\<close>

lemma type_stage_intents:
  "(intents (fst (type_stage type_repr self arg)) = [] \<and> isl (snd (type_stage type_repr self arg)))
 \<or> intents (fst (type_stage type_repr self arg)) = [attempt_hollow]
      \<and> \<not> isl (snd (type_stage type_repr self arg))
 \<or> intents (fst (type_stage type_repr self arg)) = [attempt_no_coerce]
 \<or> intents (fst (type_stage type_repr self arg)) = [attempt_no_coerce, attempt_coerce]"
proof (cases "type_checking_style self")
  case default
  then show ?thesis by (simp add: type_stage_def raise_def)
next
  case hollow
  then show ?thesis by (simp add: type_stage_hollow)
next
  case check
  then have h: "(type_checking_style self = check \<and> type_check self arg = type_check self arg
        \<and> CallTypeCheck = CallTypeCheck)
      \<or> (type_checking_style self = check_strict \<and> type_check_strict self arg = type_check self arg
        \<and> CallTypeCheck = CallTypeCheckStrict)" by simp
  show ?thesis
    unfolding type_stage_checked[OF h, of type_repr]
    by (simp split: sum.splits bool.splits)
next
  case check_strict
  then have h: "(type_checking_style self = check \<and> type_check self arg = type_check_strict self arg
        \<and> CallTypeCheckStrict = CallTypeCheck)
      \<or> (type_checking_style self = check_strict
        \<and> type_check_strict self arg = type_check_strict self arg
        \<and> CallTypeCheckStrict = CallTypeCheckStrict)" by simp
  show ?thesis
    unfolding type_stage_checked[OF h, of type_repr]
    by (simp split: sum.splits bool.splits)
qed

lemma fill_intents:
  "intents (fst (fill type_repr self arg)) =
     intents (fst (type_stage type_repr self arg))
       @ (if isl (snd (type_stage type_repr self arg)) then [] else [attempt_validation])"
proof (cases "type_stage type_repr self arg")
  case (Pair evs r)
  then show ?thesis by (cases r) (simp_all add: fill_def)
qed

lemma fill_stops_with_type_stage:
  "isl (snd (type_stage type_repr self arg)) \<Longrightarrow>
     fill type_repr self arg = generator (type_stage type_repr self arg)"
proof (cases "type_stage type_repr self arg")
  case (Pair evs r)
  assume "isl (snd (type_stage type_repr self arg))"
  with Pair show ?thesis by (cases r) (simp_all add: fill_def)
qed


text \<open>A token that is refused ends the loop of \<open>bind\<close>: the tokens after it are not applied.\<close>

lemma apply_all_refused:
  assumes "apply_all pre self = (None, s1)" and "apply_token s1 tok = (Some e, s2)"
  shows "apply_all (pre @ tok # post) self = (Some e, s2)"
  using assms
proof (induction pre arbitrary: self)
  case Nil
  then show ?case by simp
next
  case (Cons t pre)
  obtain r s' where ap: "apply_token self t = (r, s')" by (cases "apply_token self t")
  with Cons.prems(1) have r: "r = None" by (cases r) simp_all
  with Cons.prems(1) ap have "apply_all pre s' = (None, s1)" by simp
  from Cons.IH[OF this Cons.prems(2)] show ?case using ap r by simp
qed

text \<open>
  When no coercion or validation token is refused, the loop of \<open>bind\<close> applies them all:
  the last style token sets the style, and the callable coercion and validation tokens are
  appended, in order, to the coercers and to the validators.
\<close>

lemma apply_all_accepted:
  assumes "\<forall>k. CoercionToken k None \<notin> set toks \<and> ValidationToken k None \<notin> set toks"
  shows "apply_all toks self =
    (None,
     self\<lparr>type_checking_style := last (type_checking_style self # [t. StyleToken t \<leftarrow> toks]),
          coercers := coercers self @ [f. CoercionToken k (Some f) \<leftarrow> toks],
          validators := validators self @ [f. ValidationToken k (Some f) \<leftarrow> toks]\<rparr>)"
  using assms
proof (induction toks arbitrary: self)
  case Nil
  then show ?case by simp
next
  case (Cons tok toks)
  from Cons.prems
  have rest: "\<forall>k. CoercionToken k None \<notin> set toks \<and> ValidationToken k None \<notin> set toks"
    by auto
  note IH = Cons.IH[OF rest]
  show ?case
  proof (cases tok)
    case (StyleToken t)
    then show ?thesis by (simp add: IH)
  next
    case (CoercionToken k c)
    with Cons.prems obtain f where "c = Some f" by (cases c) auto
    with CoercionToken show ?thesis by (simp add: IH)
  next
    case (ValidationToken k c)
    with Cons.prems obtain f where "c = Some f" by (cases c) auto
    with ValidationToken show ?thesis by (simp add: IH)
  next
    case (OtherToken k)
    then show ?thesis by (simp add: IH)
  qed
qed

subsection \<open>An unconfigured filler\<close>

text \<open>
  C8. A filler whose \<open>type_checking_style\<close> is still \<open>default\<close> when it is filled fails
  as soon as the generator is first resumed, with \<open>NotImplementedError\<close>, the error of a
  filler that was never configured: no intent has been yielded and no type check, coercer
  or validator has been called (the run has no event at all).
\<close>

theorem fill_default_fails_immediately:
  "type_checking_style self = TypeCheckStyle.default \<Longrightarrow>
     fill type_repr self arg = ([], Inl (NotImplementedError NoArgs))"
  by (simp add: fill_def type_stage_def raise_def)

theorem fill_default_fails_immediately_witness:
  "type_checking_style (new_int_filler [CoercionToken 1 (Some from_str)]) = TypeCheckStyle.default
   \<and> fill pyval_type_repr (new_int_filler [CoercionToken 1 (Some from_str)]) (IntV 5)
       = ([], Inl (NotImplementedError NoArgs))"
  using fill_default_fails_immediately
    [of "new_int_filler [CoercionToken 1 (Some from_str)]" pyval_type_repr "IntV 5"]
  by (simp add: new_int_filler_def init_def)

subsection \<open>Hollow checking\<close>

text \<open>
  C2, as amended. For every filler with style \<open>hollow\<close> and every input \<open>x\<close>, \<open>fill\<close>
  yields \<open>attempt_hollow\<close> first, calls no type check and no coercer, never yields
  \<open>attempt_coerce\<close>, and hands \<open>x\<close> unchanged to the validation stage: what \<open>fill\<close>
  returns is what the validators make of \<open>x\<close>, as the generator lets it out, which is
  \<open>x\<close> itself when the filler has no validators.
\<close>

theorem fill_hollow_hands_input_to_validation:
  assumes "type_checking_style self = hollow"
  shows "type_stage type_repr self arg = ([Yield attempt_hollow], Inr arg)
    \<and> fill type_repr self arg
        = generator (and_then ([Yield attempt_hollow], Inr arg) (validation_stage self))
    \<and> (validators self = [] \<longrightarrow>
         fill type_repr self arg = ([Yield attempt_hollow, Yield attempt_validation], Inr arg))
    \<and> CallTypeCheck \<notin> set (fst (fill type_repr self arg))
    \<and> CallTypeCheckStrict \<notin> set (fst (fill type_repr self arg))
    \<and> (\<forall>i. CallCoercer i \<notin> set (fst (fill type_repr self arg)))
    \<and> attempt_coerce \<notin> set (intents (fst (fill type_repr self arg)))"
proof -
  have ts: "type_stage type_repr self arg = ([Yield attempt_hollow], Inr arg)"
    using assms by (rule type_stage_hollow)
  have f: "fill type_repr self arg
      = generator (and_then ([Yield attempt_hollow], Inr arg) (validation_stage self))"
    by (simp only: fill_def ts)
  obtain m where ev: "fst (validation_stage self arg) = Yield attempt_validation # map CallValidator [0..<m]"
    using validation_stage_events[of self arg] by auto
  have evs: "fst (fill type_repr self arg)
      = Yield attempt_hollow # Yield attempt_validation # map CallValidator [0..<m]"
    by (simp add: f ev)
  have none: "validators self = [] \<longrightarrow>
      fill type_repr self arg = ([Yield attempt_hollow, Yield attempt_validation], Inr arg)"
    by (simp add: f validation_stage_no_validators)
  have quiet: "CallTypeCheck \<notin> set (fst (fill type_repr self arg))
    \<and> CallTypeCheckStrict \<notin> set (fst (fill type_repr self arg))
    \<and> (\<forall>i. CallCoercer i \<notin> set (fst (fill type_repr self arg)))
    \<and> attempt_coerce \<notin> set (intents (fst (fill type_repr self arg)))"
    unfolding evs by auto
  from ts f none quiet show ?thesis by blast
qed

theorem fill_hollow_hands_input_to_validation_witness:
  "type_checking_style (int_filler hollow [] [successor]) = hollow
   \<and> fill pyval_type_repr (int_filler hollow [] [successor]) (IntV 5)
       = ([Yield attempt_hollow, Yield attempt_validation, CallValidator 0], Inr (IntV 6))
   \<and> fill pyval_type_repr (int_filler hollow [] []) (StrV ''five'')
       = ([Yield attempt_hollow, Yield attempt_validation], Inr (StrV ''five''))"
proof -
  have h1: "type_checking_style (int_filler hollow [] [successor]) = hollow"
    by (simp add: int_filler_def)
  have h2: "type_checking_style (int_filler hollow [] []) = hollow"
    by (simp add: int_filler_def)
  have v: "validators (int_filler hollow [] []) = []"
    by (simp add: int_filler_def)
  from fill_hollow_hands_input_to_validation[OF h1, of pyval_type_repr "IntV 5"]
  have a: "fill pyval_type_repr (int_filler hollow [] [successor]) (IntV 5)
      = generator (and_then ([Yield attempt_hollow], Inr (IntV 5))
          (validation_stage (int_filler hollow [] [successor])))"
    by blast
  from fill_hollow_hands_input_to_validation[OF h2, of pyval_type_repr "StrV ''five''"] v
  have b: "fill pyval_type_repr (int_filler hollow [] []) (StrV ''five'')
      = ([Yield attempt_hollow, Yield attempt_validation], Inr (StrV ''five''))"
    by blast
  have "generator (and_then ([Yield attempt_hollow], Inr (IntV 5))
        (validation_stage (int_filler hollow [] [successor])))
      = ([Yield attempt_hollow, Yield attempt_validation, CallValidator 0], Inr (IntV 6))"
    by (simp add: run_simps)
  with a b h1 show ?thesis by simp
qed

text \<open>
  C2 as it was stated, that a hollow filler returns \<open>x\<close> unchanged, is false of a hollow
  filler with a validator that transforms the value: filled with \<open>5\<close>, it returns \<open>6\<close>.
\<close>

theorem fill_hollow_returns_input_counterexample:
  "type_checking_style (int_filler hollow [] [successor]) = hollow
   \<and> snd (fill pyval_type_repr (int_filler hollow [] [successor]) (IntV 5)) = Inr (IntV 6)
   \<and> snd (fill pyval_type_repr (int_filler hollow [] [successor]) (IntV 5)) \<noteq> Inr (IntV 5)"
  by (simp add: run_simps)

subsection \<open>Strict and non-strict checking\<close>



subsection \<open>Coercion\<close>

text \<open>
  C4. For every filler with style \<open>check\<close> or \<open>check_strict\<close> whose type check rejects
  the input and whose list of coercers is empty, \<open>fill\<close> raises, right after yielding
  \<open>attempt_coerce\<close>, its own \<open>TypeError\<close>, whose message carries the runtime type of the
  value. No coercer has been called, so the error cannot be a coercer's.
\<close>

theorem fill_no_coercers_type_mismatch:
  assumes "(type_checking_style self = check \<and> type_check self arg = Inr False
              \<and> ev = CallTypeCheck)
         \<or> (type_checking_style self = check_strict \<and> type_check_strict self arg = Inr False
              \<and> ev = CallTypeCheckStrict)"
    and "coercers self = []"
  shows "fill type_repr self arg =
    ([Yield attempt_no_coerce, ev, Yield attempt_coerce],
     Inl (TypeError (Text (''failed type checking for value of type '' @ type_repr arg))))"
  using type_stage_checked[OF assms(1), of type_repr] assms(2)
  by (simp add: fill_def)

theorem fill_no_coercers_type_mismatch_witness:
  "type_checking_style (int_filler check [] [successor]) = check
   \<and> type_check (int_filler check [] [successor]) (StrV ''a'') = Inr False
   \<and> coercers (int_filler check [] [successor]) = []
   \<and> fill pyval_type_repr (int_filler check [] [successor]) (StrV ''a'')
       = ([Yield attempt_no_coerce, CallTypeCheck, Yield attempt_coerce],
          Inl (TypeError (Text ''failed type checking for value of type <class 'str'>'')))"
proof -
  have h: "(type_checking_style (int_filler check [] [successor]) = check
        \<and> type_check (int_filler check [] [successor]) (StrV ''a'') = Inr False
        \<and> CallTypeCheck = CallTypeCheck)
      \<or> (type_checking_style (int_filler check [] [successor]) = check_strict
        \<and> type_check_strict (int_filler check [] [successor]) (StrV ''a'') = Inr False
        \<and> CallTypeCheck = CallTypeCheckStrict)"
    by (simp add: int_filler_def)
  have c: "coercers (int_filler check [] [successor]) = []"
    by (simp add: int_filler_def)
  from fill_no_coercers_type_mismatch[OF h c, of pyval_type_repr] h c
  show ?thesis by simp
qed



text \<open>
  C10, as amended. In the scan of the coercers only a \<open>TypeError\<close> makes the scan go on.
  If the coercers before index \<open>k\<close> each raise a \<open>TypeError\<close> and coercer \<open>k\<close> raises
  an exception that is not a \<open>TypeError\<close>, then \<open>fill\<close> ends right after the call of
  coercer \<open>k\<close>, whether or not coercers remain after it, with that exception as the
  generator lets it out: the exception itself, unless it is a \<open>StopIteration\<close>, in
  place of which the generator raises \<open>RuntimeError\<close>.
\<close>

theorem fill_coercer_other_exception:
  assumes "(type_checking_style self = check \<and> type_check self arg = Inr False
              \<and> ev = CallTypeCheck)
         \<or> (type_checking_style self = check_strict \<and> type_check_strict self arg = Inr False
              \<and> ev = CallTypeCheckStrict)"
    and "k < length (coercers self)"
    and "\<forall>j<k. \<exists>a. (coercers self ! j) arg = Inl (TypeError a)"
    and "(coercers self ! k) arg = Inl e"
    and "\<forall>a. e \<noteq> TypeError a"
  shows "fill type_repr self arg =
      ([Yield attempt_no_coerce, ev, Yield attempt_coerce] @ map CallCoercer [0..<Suc k],
       Inl (generator_raises e))
    \<and> ((\<forall>a. e \<noteq> StopIteration a) \<longrightarrow>
          fill type_repr self arg =
            ([Yield attempt_no_coerce, ev, Yield attempt_coerce] @ map CallCoercer [0..<Suc k],
             Inl e))
    \<and> ((\<exists>a. e = StopIteration a) \<longrightarrow>
          fill type_repr self arg =
            ([Yield attempt_no_coerce, ev, Yield attempt_coerce] @ map CallCoercer [0..<Suc k],
             Inl (RuntimeError (Text ''generator raised StopIteration''))))"
proof -
  have ne: "coercers self \<noteq> []" using assms(2) by auto
  have "coerce_loop (length (coercers self)) 0 (coercers self) arg
      = (map CallCoercer [0..<0 + k + 1], (coercers self ! k) arg)"
    using assms(2-5) by (intro coerce_loop_stops) simp_all
  then have "type_stage type_repr self arg
      = ([Yield attempt_no_coerce, ev, Yield attempt_coerce] @ map CallCoercer [0..<Suc k], Inl e)"
    using type_stage_checked[OF assms(1), of type_repr] ne assms(4) by simp
  then have f: "fill type_repr self arg =
      ([Yield attempt_no_coerce, ev, Yield attempt_coerce] @ map CallCoercer [0..<Suc k],
       Inl (generator_raises e))"
    by (simp add: fill_def)
  have same: "(\<forall>a. e \<noteq> StopIteration a) \<longrightarrow> generator_raises e = e"
    by (cases e) simp_all
  have stop: "(\<exists>a. e = StopIteration a) \<longrightarrow>
      generator_raises e = RuntimeError (Text ''generator raised StopIteration'')"
    by auto
  from f same stop show ?thesis by simp
qed

theorem fill_coercer_other_exception_witness:
  "type_checking_style (int_filler check [from_none, from_table, from_str] [successor]) = check
   \<and> type_check (int_filler check [from_none, from_table, from_str] [successor]) (StrV ''ab'')
       = Inr False
   \<and> from_none (StrV ''ab'') = Inl (TypeError (Text ''expected None''))
   \<and> from_table (StrV ''ab'') = Inl (OtherError ''KeyError'' NoArgs)
   \<and> from_str (StrV ''ab'') = Inr (IntV 2)
   \<and> fill pyval_type_repr (int_filler check [from_none, from_table, from_str] [successor])
        (StrV ''ab'')
       = ([Yield attempt_no_coerce, CallTypeCheck, Yield attempt_coerce,
           CallCoercer 0, CallCoercer 1],
          Inl (OtherError ''KeyError'' NoArgs))"
proof -
  let ?F = "int_filler check [from_none, from_table, from_str] [successor]"
  have h: "(type_checking_style ?F = check \<and> type_check ?F (StrV ''ab'') = Inr False
        \<and> CallTypeCheck = CallTypeCheck)
      \<or> (type_checking_style ?F = check_strict \<and> type_check_strict ?F (StrV ''ab'') = Inr False
        \<and> CallTypeCheck = CallTypeCheckStrict)"
    by (simp add: int_filler_def)
  have k: "1 < length (coercers ?F)" by (simp add: int_filler_def)
  have before: "\<forall>j<1. \<exists>a. (coercers ?F ! j) (StrV ''ab'') = Inl (TypeError a)"
    by (simp add: int_filler_def)
  have at: "(coercers ?F ! 1) (StrV ''ab'') = Inl (OtherError ''KeyError'' NoArgs)"
    by (simp add: int_filler_def)
  have other: "\<forall>a. OtherError ''KeyError'' NoArgs \<noteq> (TypeError a :: nat exn)" by simp
  have nostop: "\<forall>a. OtherError ''KeyError'' NoArgs \<noteq> (StopIteration a :: nat exn)" by simp
  from fill_coercer_other_exception[OF h k before at other, of pyval_type_repr] nostop
  have "fill pyval_type_repr ?F (StrV ''ab'') =
      ([Yield attempt_no_coerce, CallTypeCheck, Yield attempt_coerce] @ map CallCoercer [0..<Suc 1],
       Inl (OtherError ''KeyError'' NoArgs))"
    by blast
  then have "fill pyval_type_repr ?F (StrV ''ab'') =
      ([Yield attempt_no_coerce, CallTypeCheck, Yield attempt_coerce, CallCoercer 0, CallCoercer 1],
       Inl (OtherError ''KeyError'' NoArgs))"
    by (simp add: upt_rec)
  then show ?thesis by (simp add: int_filler_def)
qed

text \<open>
  C10 as it was stated, that \<open>fill\<close> ends with the very exception the coercer raised, is
  false of a coercer that raises \<open>StopIteration\<close>: the generator ends with
  \<open>RuntimeError\<close>, not with the \<open>StopIteration\<close>.
\<close>

theorem fill_coercer_stop_iteration_counterexample:
  "type_checking_style (int_filler check [from_iterator, from_str] []) = check
   \<and> type_check (int_filler check [from_iterator, from_str] []) (StrV ''ab'') = Inr False
   \<and> from_iterator (StrV ''ab'') = Inl (StopIteration NoArgs)
   \<and> fill pyval_type_repr (int_filler check [from_iterator, from_str] []) (StrV ''ab'')
       = ([Yield attempt_no_coerce, CallTypeCheck, Yield attempt_coerce, CallCoercer 0],
          Inl (RuntimeError (Text ''generator raised StopIteration'')))
   \<and> snd (fill pyval_type_repr (int_filler check [from_iterator, from_str] []) (StrV ''ab''))
       \<noteq> Inl (StopIteration NoArgs)"
  by (simp add: run_simps)

subsection \<open>The order of the intents\<close>

text \<open>
  C3. For every filler and every input, the intents yielded by \<open>fill\<close> form a prefix of
  \<open>[attempt_no_coerce, attempt_coerce, attempt_validation]\<close>, of
  \<open>[attempt_no_coerce, attempt_validation]\<close> or of \<open>[attempt_hollow, attempt_validation]\<close>.
  When \<open>attempt_validation\<close> is yielded it is the last intent, and it is yielded exactly
  when the stages before validation end without an exception; when it is not yielded,
  \<open>fill\<close> ends as those stages did, with their exception as the generator lets it out.
\<close>

theorem fill_intent_order:
  "(prefix (intents (fst (fill type_repr self arg)))
        [attempt_no_coerce, attempt_coerce, attempt_validation]
    \<or> prefix (intents (fst (fill type_repr self arg))) [attempt_no_coerce, attempt_validation]
    \<or> prefix (intents (fst (fill type_repr self arg))) [attempt_hollow, attempt_validation])
 \<and> (attempt_validation \<in> set (intents (fst (fill type_repr self arg))) \<longrightarrow>
      last (intents (fst (fill type_repr self arg))) = attempt_validation)
 \<and> (attempt_validation \<in> set (intents (fst (fill type_repr self arg)))
      \<longleftrightarrow> \<not> isl (snd (type_stage type_repr self arg)))
 \<and> (attempt_validation \<notin> set (intents (fst (fill type_repr self arg))) \<longrightarrow>
      fill type_repr self arg = generator (type_stage type_repr self arg)
      \<and> isl (snd (fill type_repr self arg)))"
proof -
  have stop: "isl (snd (type_stage type_repr self arg)) \<longrightarrow>
      fill type_repr self arg = generator (type_stage type_repr self arg)
      \<and> isl (snd (fill type_repr self arg))"
    using fill_stops_with_type_stage[of type_repr self arg] by simp
  show ?thesis
    using type_stage_intents[of type_repr self arg] stop
    unfolding fill_intents
    by (elim disjE) (auto simp: prefix_def)
qed

theorem fill_intent_order_witness:
  "intents (fst (fill pyval_type_repr (int_filler check [from_str] [non_negative]) (StrV ''ab'')))
     = [attempt_no_coerce, attempt_coerce, attempt_validation]
   \<and> prefix (intents (fst (fill pyval_type_repr (int_filler check [from_str] [non_negative]) (StrV ''ab''))))
        [attempt_no_coerce, attempt_coerce, attempt_validation]
   \<and> last (intents (fst (fill pyval_type_repr (int_filler check [from_str] [non_negative]) (StrV ''ab''))))
        = attempt_validation
   \<and> intents (fst (fill pyval_type_repr (int_filler check [from_none] [non_negative]) (StrV ''ab'')))
        = [attempt_no_coerce, attempt_coerce]
   \<and> fill pyval_type_repr (int_filler check [from_none] [non_negative]) (StrV ''ab'')
        = generator
            (type_stage pyval_type_repr (int_filler check [from_none] [non_negative]) (StrV ''ab''))
   \<and> isl (snd (fill pyval_type_repr (int_filler check [from_none] [non_negative]) (StrV ''ab'')))"
proof -
  let ?F = "int_filler check [from_str] [non_negative]"
  let ?G = "int_filler check [from_none] [non_negative]"
  have iF: "intents (fst (fill pyval_type_repr ?F (StrV ''ab'')))
      = [attempt_no_coerce, attempt_coerce, attempt_validation]"
    by (simp add: run_simps)
  have iG: "intents (fst (fill pyval_type_repr ?G (StrV ''ab''))) = [attempt_no_coerce, attempt_coerce]"
    by (simp add: run_simps)
  have inF: "attempt_validation \<in> set (intents (fst (fill pyval_type_repr ?F (StrV ''ab''))))"
    by (simp add: iF)
  have outG: "attempt_validation \<notin> set (intents (fst (fill pyval_type_repr ?G (StrV ''ab''))))"
    by (simp add: iG)
  from fill_intent_order[of pyval_type_repr ?F "StrV ''ab''"] inF
  have lastF: "last (intents (fst (fill pyval_type_repr ?F (StrV ''ab'')))) = attempt_validation"
    by blast
  from fill_intent_order[of pyval_type_repr ?G "StrV ''ab''"] outG
  have stopG: "fill pyval_type_repr ?G (StrV ''ab'')
        = generator (type_stage pyval_type_repr ?G (StrV ''ab''))
      \<and> isl (snd (fill pyval_type_repr ?G (StrV ''ab'')))"
    by blast
  have preF: "prefix (intents (fst (fill pyval_type_repr ?F (StrV ''ab''))))
      [attempt_no_coerce, attempt_coerce, attempt_validation]"
    by (simp add: iF)
  from iF preF lastF iG stopG show ?thesis by blast
qed

subsection \<open>Validation\<close>



subsection \<open>Binding\<close>

text \<open>
  C7, as amended. \<open>bind\<close> applies the tokens of \<open>args\<close> in order. When no coercion or
  validation token is refused (each is callable), every token is applied: the style is
  that of the last style token, the callable coercion and validation tokens have been
  appended to the coercers and the validators, and \<open>bind\<close> then raises if and only if the
  resulting style is \<open>default\<close> (\<open>NotImplementedError\<close>), or is \<open>hollow\<close> while the
  resulting list of coercers is not empty (\<open>ValueError\<close>); otherwise it succeeds. When a
  coercion or validation token is not callable, \<open>bind\<close> raises \<open>TypeError(token)\<close> at the
  first such token, whatever the style: the tokens before it have been applied, the ones
  after it have not, and the two conditions on the style are not looked at.
\<close>

theorem bind_raises_or_succeeds:
  "((\<forall>k. CoercionToken k None \<notin> set (args self) \<and> ValidationToken k None \<notin> set (args self))
      \<longrightarrow>
      (let style' = last (type_checking_style self # [t. StyleToken t \<leftarrow> args self]);
           coercers' = coercers self @ [f. CoercionToken k (Some f) \<leftarrow> args self];
           validators' = validators self @ [f. ValidationToken k (Some f) \<leftarrow> args self];
           self' = self\<lparr>type_checking_style := style', coercers := coercers',
                        validators := validators'\<rparr>
       in (fst (bind self) \<noteq> None \<longleftrightarrow>
             style' = TypeCheckStyle.default \<or> (style' = hollow \<and> coercers' \<noteq> []))
          \<and> bind self =
              (if style' = TypeCheckStyle.default then Some (NotImplementedError NoArgs)
               else if style' = hollow \<and> coercers' \<noteq> []
               then Some (ValueError (Text ''cannot have hollow type checking with coercers''))
               else None,
               self')))
 \<and> (\<forall>pre tok post k.
        args self = pre @ tok # post
        \<and> (\<forall>k'. CoercionToken k' None \<notin> set pre \<and> ValidationToken k' None \<notin> set pre)
        \<and> (tok = CoercionToken k None \<or> tok = ValidationToken k None)
      \<longrightarrow> bind self =
            (Some (TypeError (Object k)),
             self\<lparr>type_checking_style := last (type_checking_style self # [t. StyleToken t \<leftarrow> pre]),
                  coercers := coercers self @ [f. CoercionToken k' (Some f) \<leftarrow> pre],
                  validators := validators self @ [f. ValidationToken k' (Some f) \<leftarrow> pre]\<rparr>))"
proof -
  have all_applied:
    "(let style' = last (type_checking_style self # [t. StyleToken t \<leftarrow> args self]);
          coercers' = coercers self @ [f. CoercionToken k (Some f) \<leftarrow> args self];
          validators' = validators self @ [f. ValidationToken k (Some f) \<leftarrow> args self];
          self' = self\<lparr>type_checking_style := style', coercers := coercers',
                       validators := validators'\<rparr>
      in (fst (bind self) \<noteq> None \<longleftrightarrow>
            style' = TypeCheckStyle.default \<or> (style' = hollow \<and> coercers' \<noteq> []))
         \<and> bind self =
             (if style' = TypeCheckStyle.default then Some (NotImplementedError NoArgs)
              else if style' = hollow \<and> coercers' \<noteq> []
              then Some (ValueError (Text ''cannot have hollow type checking with coercers''))
              else None,
              self'))"
    if h: "\<forall>k. CoercionToken k None \<notin> set (args self) \<and> ValidationToken k None \<notin> set (args self)"
    unfolding Let_def bind_def apply_all_accepted[OF h, of self]
    by simp
  have refused: "bind self =
      (Some (TypeError (Object k)),
       self\<lparr>type_checking_style := last (type_checking_style self # [t. StyleToken t \<leftarrow> pre]),
            coercers := coercers self @ [f. CoercionToken k' (Some f) \<leftarrow> pre],
            validators := validators self @ [f. ValidationToken k' (Some f) \<leftarrow> pre]\<rparr>)"
    if h: "args self = pre @ tok # post
        \<and> (\<forall>k'. CoercionToken k' None \<notin> set pre \<and> ValidationToken k' None \<notin> set pre)
        \<and> (tok = CoercionToken k None \<or> tok = ValidationToken k None)"
    for pre tok post k
  proof -
    let ?s1 = "self\<lparr>type_checking_style := last (type_checking_style self # [t. StyleToken t \<leftarrow> pre]),
            coercers := coercers self @ [f. CoercionToken k' (Some f) \<leftarrow> pre],
            validators := validators self @ [f. ValidationToken k' (Some f) \<leftarrow> pre]\<rparr>"
    from h have "\<forall>k'. CoercionToken k' None \<notin> set pre \<and> ValidationToken k' None \<notin> set pre"
      by blast
    then have pre: "apply_all pre self = (None, ?s1)" by (rule apply_all_accepted)
    from h have "apply_token ?s1 tok = (Some (TypeError (Object k)), ?s1)" by auto
    with pre have "apply_all (pre @ tok # post) self = (Some (TypeError (Object k)), ?s1)"
      by (rule apply_all_refused)
    with h show ?thesis by (simp add: bind_def)
  qed
  from all_applied refused show ?thesis by blast
qed

theorem bind_raises_or_succeeds_witness:
  "bind (new_int_filler [StyleToken hollow, StyleToken check, CoercionToken 1 (Some from_str),
                         OtherToken 9, ValidationToken 2 (Some successor)])
     = (None, (int_filler check [from_str] [successor])
                \<lparr>args := [StyleToken hollow, StyleToken check, CoercionToken 1 (Some from_str),
                           OtherToken 9, ValidationToken 2 (Some successor)]\<rparr>)
   \<and> bind (new_int_filler [StyleToken hollow, CoercionToken 1 (Some from_str)])
     = (Some (ValueError (Text ''cannot have hollow type checking with coercers'')),
        (int_filler hollow [from_str] [])
                \<lparr>args := [StyleToken hollow, CoercionToken 1 (Some from_str)]\<rparr>)
   \<and> bind (new_int_filler [ValidationToken 2 (Some successor)])
     = (Some (NotImplementedError NoArgs),
        (int_filler TypeCheckStyle.default [] [successor])
                \<lparr>args := [ValidationToken 2 (Some successor)]\<rparr>)
   \<and> bind (new_int_filler [StyleToken check, ValidationToken 4 None,
                           CoercionToken 1 (Some from_str)])
     = (Some (TypeError (Object 4)),
        (int_filler check [] [])
                \<lparr>args := [StyleToken check, ValidationToken 4 None,
                           CoercionToken 1 (Some from_str)]\<rparr>)"
proof -
  let ?A = "new_int_filler [StyleToken hollow, StyleToken check, CoercionToken 1 (Some from_str),
                            OtherToken 9, ValidationToken 2 (Some successor)]"
  let ?B = "new_int_filler [StyleToken hollow, CoercionToken 1 (Some from_str)]"
  let ?C = "new_int_filler [ValidationToken 2 (Some successor)]"
  let ?D = "new_int_filler [StyleToken check, ValidationToken 4 None,
                            CoercionToken 1 (Some from_str)]"
  have hA: "\<forall>k. CoercionToken k None \<notin> set (args ?A) \<and> ValidationToken k None \<notin> set (args ?A)"
    by (simp add: new_int_filler_def init_def)
  have hB: "\<forall>k. CoercionToken k None \<notin> set (args ?B) \<and> ValidationToken k None \<notin> set (args ?B)"
    by (simp add: new_int_filler_def init_def)
  have hC: "\<forall>k. CoercionToken k None \<notin> set (args ?C) \<and> ValidationToken k None \<notin> set (args ?C)"
    by (simp add: new_int_filler_def init_def)
  have hD: "args ?D = [StyleToken check] @ ValidationToken 4 None # [CoercionToken 1 (Some from_str)]
      \<and> (\<forall>k'. CoercionToken k' None \<notin> set [StyleToken check :: (pyval, nat) token]
             \<and> ValidationToken k' None \<notin> set [StyleToken check :: (pyval, nat) token])
      \<and> (ValidationToken 4 None = (CoercionToken 4 None :: (pyval, nat) token)
           \<or> ValidationToken 4 None = (ValidationToken 4 None :: (pyval, nat) token))"
    by (simp add: new_int_filler_def init_def)
  from bind_raises_or_succeeds[of ?A, THEN conjunct1, THEN mp, OF hA]
  have a: "bind ?A = (None, (int_filler check [from_str] [successor])\<lparr>args := args ?A\<rparr>)"
    by (simp add: Let_def new_int_filler_def init_def int_filler_def)
  from bind_raises_or_succeeds[of ?B, THEN conjunct1, THEN mp, OF hB]
  have b: "bind ?B = (Some (ValueError (Text ''cannot have hollow type checking with coercers'')),
      (int_filler hollow [from_str] [])\<lparr>args := args ?B\<rparr>)"
    by (simp add: Let_def new_int_filler_def init_def int_filler_def)
  from bind_raises_or_succeeds[of ?C, THEN conjunct1, THEN mp, OF hC]
  have c: "bind ?C = (Some (NotImplementedError NoArgs),
      (int_filler TypeCheckStyle.default [] [successor])\<lparr>args := args ?C\<rparr>)"
    by (simp add: Let_def new_int_filler_def init_def int_filler_def)
  from bind_raises_or_succeeds[of ?D, THEN conjunct2, THEN spec, THEN spec, THEN spec, THEN spec,
      THEN mp, OF hD]
  have d: "bind ?D = (Some (TypeError (Object 4)), (int_filler check [] [])\<lparr>args := args ?D\<rparr>)"
    by (simp add: new_int_filler_def init_def int_filler_def)
  from a b c d show ?thesis by (simp add: new_int_filler_def init_def)
qed

text \<open>
  C7 as it was stated, that \<open>bind\<close> raises only when the resulting style is \<open>default\<close> or
  is \<open>hollow\<close> with coercers, and succeeds otherwise, is false of a filler one of whose
  tokens is refused: \<open>bind\<close> raises \<open>TypeError(token)\<close> and leaves the filler with the
  style \<open>check\<close> and no coercer.
\<close>

theorem bind_refused_token_counterexample:
  "fst (bind (new_int_filler [StyleToken check, CoercionToken 1 None]))
     = Some (TypeError (Object 1))
   \<and> type_checking_style (snd (bind (new_int_filler [StyleToken check, CoercionToken 1 None])))
       = check
   \<and> coercers (snd (bind (new_int_filler [StyleToken check, CoercionToken 1 None]))) = []"
  by (simp add: bind_def new_int_filler_def init_def)

text \<open>
  C9, as amended. A coercion token is accepted if and only if it is callable, whatever the
  arguments it can be called with: it is then appended to \<open>coercers\<close>, and otherwise
  \<open>apply\<close> raises \<open>TypeError(token)\<close> and leaves the filler as it was. The same holds of a
  validation token and \<open>validators\<close>. In \<open>bind\<close>, the first such token that is not
  callable ends the binding with \<open>TypeError(token)\<close>, the tokens before it applied and the
  ones after it not.
\<close>

theorem apply_token_resolution:
  "(fst (apply_token self (CoercionToken k c)) = None \<longleftrightarrow> c \<noteq> None)
 \<and> (\<forall>f. c = Some f \<longrightarrow>
        apply_token self (CoercionToken k c) = (None, self\<lparr>coercers := coercers self @ [f]\<rparr>))
 \<and> (c = None \<longrightarrow>
        apply_token self (CoercionToken k c) = (Some (TypeError (Object k)), self))
 \<and> (fst (apply_token self (ValidationToken k c)) = None \<longleftrightarrow> c \<noteq> None)
 \<and> (\<forall>f. c = Some f \<longrightarrow>
        apply_token self (ValidationToken k c)
          = (None, self\<lparr>validators := validators self @ [f]\<rparr>))
 \<and> (c = None \<longrightarrow>
        apply_token self (ValidationToken k c) = (Some (TypeError (Object k)), self))
 \<and> (\<forall>pre tok post s1.
        args self = pre @ tok # post \<and> apply_all pre self = (None, s1)
        \<and> (tok = CoercionToken k None \<or> tok = ValidationToken k None)
      \<longrightarrow> bind self = (Some (TypeError (Object k)), s1))"
proof -
  have one: "(fst (apply_token self (CoercionToken k c)) = None \<longleftrightarrow> c \<noteq> None)
    \<and> (\<forall>f. c = Some f \<longrightarrow>
        apply_token self (CoercionToken k c) = (None, self\<lparr>coercers := coercers self @ [f]\<rparr>))
    \<and> (c = None \<longrightarrow>
        apply_token self (CoercionToken k c) = (Some (TypeError (Object k)), self))"
    by (cases c) simp_all
  have two: "(fst (apply_token self (ValidationToken k c)) = None \<longleftrightarrow> c \<noteq> None)
    \<and> (\<forall>f. c = Some f \<longrightarrow>
        apply_token self (ValidationToken k c)
          = (None, self\<lparr>validators := validators self @ [f]\<rparr>))
    \<and> (c = None \<longrightarrow>
        apply_token self (ValidationToken k c) = (Some (TypeError (Object k)), self))"
    by (cases c) simp_all
  have three: "bind self = (Some (TypeError (Object k)), s1)"
    if h: "args self = pre @ tok # post \<and> apply_all pre self = (None, s1)
        \<and> (tok = CoercionToken k None \<or> tok = ValidationToken k None)"
    for pre tok post s1
  proof -
    from h have "apply_token s1 tok = (Some (TypeError (Object k)), s1)" by auto
    with h have "apply_all (pre @ tok # post) self = (Some (TypeError (Object k)), s1)"
      by (intro apply_all_refused) simp_all
    with h show ?thesis by (simp add: bind_def)
  qed
  then have three': "\<forall>pre tok post s1.
        args self = pre @ tok # post \<and> apply_all pre self = (None, s1)
        \<and> (tok = CoercionToken k None \<or> tok = ValidationToken k None)
      \<longrightarrow> bind self = (Some (TypeError (Object k)), s1)"
    by (intro allI impI)
  from one two three' show ?thesis
    by (elim conjE, intro conjI) assumption+
qed

theorem apply_token_resolution_witness:
  "apply_token (new_int_filler []) (CoercionToken 3 None)
     = (Some (TypeError (Object 3)), new_int_filler [])
   \<and> apply_token (new_int_filler []) (CoercionToken 3 (Some from_str))
     = (None, (new_int_filler [])\<lparr>coercers := [from_str]\<rparr>)
   \<and> apply_token (new_int_filler []) (ValidationToken 4 None)
     = (Some (TypeError (Object 4)), new_int_filler [])
   \<and> apply_token (new_int_filler []) (ValidationToken 4 (Some successor))
     = (None, (new_int_filler [])\<lparr>validators := [successor]\<rparr>)
   \<and> bind (new_int_filler [StyleToken check, ValidationToken 4 None, CoercionToken 1 (Some from_str)])
     = (Some (TypeError (Object 4)),
        (new_int_filler [StyleToken check, ValidationToken 4 None, CoercionToken 1 (Some from_str)])
          \<lparr>type_checking_style := check\<rparr>)"
proof -
  let ?N = "new_int_filler [] :: (pyval, nat) AnnotatedFiller"
  let ?B = "new_int_filler [StyleToken check, ValidationToken 4 None, CoercionToken 1 (Some from_str)]"
  have e: "coercers ?N = [] \<and> validators ?N = []"
    by (simp add: new_int_filler_def init_def)
  from apply_token_resolution[of ?N 3 None]
  have a: "apply_token ?N (CoercionToken 3 None) = (Some (TypeError (Object 3)), ?N)"
    by blast
  from apply_token_resolution[of ?N 3 "Some from_str"]
  have b: "apply_token ?N (CoercionToken 3 (Some from_str))
      = (None, ?N\<lparr>coercers := coercers ?N @ [from_str]\<rparr>)"
    by blast
  from apply_token_resolution[of ?N 4 None]
  have c: "apply_token ?N (ValidationToken 4 None) = (Some (TypeError (Object 4)), ?N)"
    by blast
  from apply_token_resolution[of ?N 4 "Some successor"]
  have d: "apply_token ?N (ValidationToken 4 (Some successor))
      = (None, ?N\<lparr>validators := validators ?N @ [successor]\<rparr>)"
    by blast
  have p: "args ?B = [StyleToken check] @ ValidationToken 4 None # [CoercionToken 1 (Some from_str)]
      \<and> apply_all [StyleToken check] ?B = (None, ?B\<lparr>type_checking_style := check\<rparr>)
      \<and> (ValidationToken 4 None = (CoercionToken 4 None :: (pyval, nat) token)
           \<or> ValidationToken 4 None = (ValidationToken 4 None :: (pyval, nat) token))"
    by (simp add: new_int_filler_def init_def)
  from apply_token_resolution[of ?B 4 None] p
  have f: "bind ?B = (Some (TypeError (Object 4)), ?B\<lparr>type_checking_style := check\<rparr>)"
    by blast
  from a b c d f e show ?thesis by simp
qed

text \<open>
  C9 as it was stated, that a token is accepted only if it can be invoked as a function of
  one argument, is false of a callable with two parameters: \<open>callable(token)\<close> holds, so
  the token is accepted and \<open>bind\<close> succeeds, and the \<open>TypeError\<close> of the missing argument
  is only raised when \<open>fill\<close> calls the coercer.
\<close>

theorem apply_token_arity_counterexample:
  "needs_two (StrV ''a'')
     = Inl (TypeError (Text ''needs_two() missing 1 required positional argument''))
   \<and> apply_token (new_int_filler []) (CoercionToken 3 (Some needs_two))
     = (None, (new_int_filler [])\<lparr>coercers := [needs_two]\<rparr>)
   \<and> apply_token (new_int_filler []) (ValidationToken 4 (Some needs_two))
     = (None, (new_int_filler [])\<lparr>validators := [needs_two]\<rparr>)
   \<and> bind (new_int_filler [StyleToken check, CoercionToken 3 (Some needs_two)])
     = (None, (int_filler check [needs_two] [])
                \<lparr>args := [StyleToken check, CoercionToken 3 (Some needs_two)]\<rparr>)
   \<and> fill pyval_type_repr (int_filler check [needs_two] []) (StrV ''a'')
     = ([Yield attempt_no_coerce, CallTypeCheck, Yield attempt_coerce, CallCoercer 0],
        Inl (TypeError (Text ''needs_two() missing 1 required positional argument'')))"
  by (simp add: run_simps)

end
